theory Spec2Isabelle
  imports Main
begin

section \<open>The wrapping loader of @sentry/nextjs\<close>

text \<open>
  A shallow embedding of \<^verbatim>\<open>packages/nextjs/src/config/loaders/wrappingLoader.ts\<close>
  and of \<^verbatim>\<open>withSentryGetServerSideProps\<close>. JavaScript strings are modelled as
  \<^typ>\<open>string\<close> (lists of 8-bit characters): every token the loader looks for is ASCII.
\<close>

subsection \<open>Characters and string helpers\<close>

abbreviation (input) backslash :: char where
  "backslash \<equiv> CHR 0x5C"

abbreviation (input) newline :: char where
  "newline \<equiv> CHR 0x0A"

abbreviation (input) carriage_return :: char where
  "carriage_return \<equiv> CHR 0x0D"

text \<open>\<^verbatim>\<open>s.startsWith(p)\<close>.\<close>

definition startsWith :: "string \<Rightarrow> string \<Rightarrow> bool" where
  "startsWith s p = (take (length p) s = p)"

text \<open>\<^verbatim>\<open>parts.join(sep)\<close>.\<close>

fun join_with :: "string \<Rightarrow> string list \<Rightarrow> string" where
  "join_with sep [] = []"
| "join_with sep [x] = x"
| "join_with sep (x # y # zs) = x @ sep @ join_with sep (y # zs)"

text \<open>\<^verbatim>\<open>s.split(sep)\<close> for a separator given as a predicate on characters.\<close>

fun split_where :: "(char \<Rightarrow> bool) \<Rightarrow> string \<Rightarrow> string list" where
  "split_where p [] = [[]]"
| "split_where p (c # cs) =
     (if p c then [] # split_where p cs
      else (case split_where p cs of
              [] \<Rightarrow> [[c]]
            | w # ws \<Rightarrow> (c # w) # ws))"

subsection \<open>Node's \<^verbatim>\<open>path\<close> module\<close>

text \<open>
  The loader calls \<^verbatim>\<open>path.relative\<close> and \<^verbatim>\<open>path.join\<close> of Node, which behave
  differently on a POSIX and on a Windows host. Node is not part of the repository; the
  two functions are modelled after Node's documentation, on absolute paths (what webpack
  hands to a loader as \<^verbatim>\<open>resourcePath\<close> and what Next.js hands over as
  \<^verbatim>\<open>pagesDir\<close>). A relative path would be resolved against the working directory of
  the process: there the model answers \<open>None\<close>.
\<close>

datatype platform = Posix | Win32

text \<open>
  Normalising the segments of a path: empty segments and \<^verbatim>\<open>.\<close> are dropped,
  \<^verbatim>\<open>..\<close> removes the segment before it (and is dropped at the root). The first
  argument is the stack of segments kept so far, innermost first.
\<close>

fun normalize_segments :: "string list \<Rightarrow> string list \<Rightarrow> string list" where
  "normalize_segments acc [] = rev acc"
| "normalize_segments acc (s # ss) =
     (if s = [] \<or> s = ''.'' then normalize_segments acc ss
      else if s = ''..'' then normalize_segments (drop 1 acc) ss
      else normalize_segments (s # acc) ss)"

text \<open>Dropping the longest common prefix of two segment lists, up to \<open>eq\<close>.\<close>

fun strip_common :: "(string \<Rightarrow> string \<Rightarrow> bool) \<Rightarrow> string list \<Rightarrow> string list
    \<Rightarrow> string list \<times> string list" where
  "strip_common eq (x # xs) (y # ys) =
     (if eq x y then strip_common eq xs ys else (x # xs, y # ys))"
| "strip_common eq xs ys = (xs, ys)"

definition relative_segments :: "(string \<Rightarrow> string \<Rightarrow> bool) \<Rightarrow> string list \<Rightarrow> string list
    \<Rightarrow> string list" where
  "relative_segments eq from to =
     (case strip_common eq from to of
        (a, b) \<Rightarrow> replicate (length a) ''..'' @ b)"

paragraph \<open>POSIX\<close>

definition posix_isAbsolute :: "string \<Rightarrow> bool" where
  "posix_isAbsolute p = (case p of [] \<Rightarrow> False | c # _ \<Rightarrow> c = CHR ''/'')"

definition posix_segments :: "string \<Rightarrow> string list" where
  "posix_segments p = normalize_segments [] (split_where (\<lambda>c. c = CHR ''/'') p)"

definition posix_relative :: "string \<Rightarrow> string \<Rightarrow> string option" where
  "posix_relative from to =
     (if posix_isAbsolute from \<and> posix_isAbsolute to
      then Some (join_with ''/'' (relative_segments (=) (posix_segments from) (posix_segments to)))
      else None)"

text \<open>\<^verbatim>\<open>path.join(a, b, c)\<close> with \<open>b\<close> and \<open>c\<close> not empty.\<close>

definition posix_join :: "string \<Rightarrow> string \<Rightarrow> string \<Rightarrow> string option" where
  "posix_join a b c =
     (if posix_isAbsolute a
      then Some (''/'' @ join_with ''/'' (posix_segments (a @ ''/'' @ b @ ''/'' @ c)))
      else None)"

paragraph \<open>Windows\<close>

text \<open>
  On Windows both \<^verbatim>\<open>/\<close> and the backslash separate segments, paths are compared
  without regard to case, and results are joined by backslashes. The model covers paths
  that start with a drive letter, a colon and a separator; UNC paths and drive-relative
  paths are outside it. Case is folded on ASCII letters.
\<close>

definition win32_isSep :: "char \<Rightarrow> bool" where
  "win32_isSep c = (c = CHR ''/'' \<or> c = backslash)"

definition isLetter :: "char \<Rightarrow> bool" where
  "isLetter c = (let n = (of_char c :: nat) in (65 \<le> n \<and> n \<le> 90) \<or> (97 \<le> n \<and> n \<le> 122))"

definition isDigit :: "char \<Rightarrow> bool" where
  "isDigit c = (let n = (of_char c :: nat) in 48 \<le> n \<and> n \<le> 57)"

definition toLowerCase_char :: "char \<Rightarrow> char" where
  "toLowerCase_char c =
     (let n = (of_char c :: nat) in if 65 \<le> n \<and> n \<le> 90 then char_of (n + 32) else c)"

definition toLowerCase :: "string \<Rightarrow> string" where
  "toLowerCase s = map toLowerCase_char s"

definition win32_isAbsolute :: "string \<Rightarrow> bool" where
  "win32_isAbsolute p =
     (case p of
        d # col # sep # _ \<Rightarrow> isLetter d \<and> col = CHR '':'' \<and> win32_isSep sep
      | _ \<Rightarrow> False)"

definition win32_device :: "string \<Rightarrow> string" where
  "win32_device p = take 2 p"

definition win32_segments :: "string \<Rightarrow> string list" where
  "win32_segments p = normalize_segments [] (split_where win32_isSep (drop 2 p))"

definition win32_resolved :: "string \<Rightarrow> string" where
  "win32_resolved p = win32_device p @ [backslash] @ join_with [backslash] (win32_segments p)"

definition win32_relative :: "string \<Rightarrow> string \<Rightarrow> string option" where
  "win32_relative from to =
     (if win32_isAbsolute from \<and> win32_isAbsolute to
      then Some
        (if toLowerCase (win32_device from) \<noteq> toLowerCase (win32_device to)
         then win32_resolved to
         else join_with [backslash]
                (relative_segments (\<lambda>x y. toLowerCase x = toLowerCase y)
                   (win32_segments from) (win32_segments to)))
      else None)"

definition win32_join :: "string \<Rightarrow> string \<Rightarrow> string \<Rightarrow> string option" where
  "win32_join a b c =
     (if win32_isAbsolute a
      then Some (win32_resolved (a @ [backslash] @ b @ [backslash] @ c))
      else None)"

paragraph \<open>The \<^verbatim>\<open>path\<close> object of the host\<close>

definition path_relative :: "platform \<Rightarrow> string \<Rightarrow> string \<Rightarrow> string option" where
  "path_relative pf from to =
     (case pf of Posix \<Rightarrow> posix_relative from to | Win32 \<Rightarrow> win32_relative from to)"

definition path_join :: "platform \<Rightarrow> string \<Rightarrow> string \<Rightarrow> string \<Rightarrow> string option" where
  "path_join pf a b c =
     (case pf of Posix \<Rightarrow> posix_join a b c | Win32 \<Rightarrow> win32_join a b c)"

subsection \<open>Results of JavaScript computations\<close>

text \<open>
  A thrown value is an \<^verbatim>\<open>Error\<close> with a name and a message. A synchronous
  computation returns, throws, or leaves the fragment of JavaScript that is modelled
  here (\<open>Unmodelled\<close>: the model makes no statement). A promise that settles is a sum:
  \<open>Inl\<close> the reason of a rejection, \<open>Inr\<close> the value it resolves to.
\<close>

datatype error = Error string string

datatype 'a outcome = Returns 'a | Throws error | Unmodelled

text \<open>\<^verbatim>\<open>Error.prototype.toString\<close>, which the template literal of the warning calls.\<close>

definition error_toString :: "error \<Rightarrow> string" where
  "error_toString e =
     (case e of Error name msg \<Rightarrow>
        if name = [] then msg else if msg = [] then name else name @ '': '' @ msg)"

subsection \<open>Regular expressions and \<^verbatim>\<open>String.prototype.replace\<close>\<close>

text \<open>
  A regular expression object is modelled by what \<^verbatim>\<open>exec\<close> needs of it: given a start
  index and the rest of the subject from that index, the length of the match that
  begins there, if there is one.
\<close>

type_synonym regexp = "nat \<Rightarrow> string \<Rightarrow> nat option"

text \<open>The leftmost match: \<^verbatim>\<open>exec\<close> tries every start index in turn.\<close>

fun exec_from :: "regexp \<Rightarrow> nat \<Rightarrow> string \<Rightarrow> (nat \<times> nat) option" where
  "exec_from re i s =
     (case re i s of
        Some l \<Rightarrow> Some (i, l)
      | None \<Rightarrow> (case s of [] \<Rightarrow> None | _ # t \<Rightarrow> exec_from re (Suc i) t))"

text \<open>
  \<^verbatim>\<open>s.replace(re, replacement)\<close> for a regular expression without the \<^verbatim>\<open>g\<close> flag:
  the first match is replaced. The replacement is given as a function of the matched
  text (in the loader, the only group spans the whole match).
\<close>

definition String_replace :: "string \<Rightarrow> regexp \<Rightarrow> (string \<Rightarrow> string) \<Rightarrow> string" where
  "String_replace s re replacement =
     (case exec_from re 0 s of
        None \<Rightarrow> s
      | Some (i, l) \<Rightarrow> take i s @ replacement (take l (drop i s)) @ drop (i + l) s)"

text \<open>
  \<^verbatim>\<open>/(.*)/\<close>: the dot matches every character but a line terminator (of the four
  line terminators of JavaScript, the two that are single bytes).
\<close>

definition re_any :: regexp where
  "re_any i s = Some (length (takeWhile (\<lambda>c. c \<noteq> newline \<and> c \<noteq> carriage_return) s))"

text \<open>\<^verbatim>\<open>/\/index$/\<close>.\<close>

definition re_index_at_end :: regexp where
  "re_index_at_end i s = (if s = ''/index'' then Some 6 else None)"

text \<open>\<^verbatim>\<open>/^$/\<close>.\<close>

definition re_empty :: regexp where
  "re_empty i s = (if i = 0 \<and> s = [] then Some 0 else None)"

paragraph \<open>The pattern built from \<^verbatim>\<open>pageExtensionRegex\<close>\<close>

text \<open>
  \<^verbatim>\<open>new RegExp(pattern)\<close> is modelled on the patterns made of literal characters,
  escaped punctuation, groups and alternatives, which is what Next.js page extensions
  give (\<^verbatim>\<open>tsx|ts|jsx|js\<close>). A pattern with an unbalanced parenthesis or a trailing
  backslash is a \<^verbatim>\<open>SyntaxError\<close>, as in JavaScript. Quantifiers, classes, anchors,
  the dot and letter or digit escapes are outside the model.
\<close>

datatype rx = Eps | Lit char | Cat rx rx | Or rx rx

text \<open>
  The lengths of the matches of a pattern at the start of a string, in the order in
  which a backtracking matcher finds them: the left alternative first.
\<close>

fun rx_lens :: "rx \<Rightarrow> string \<Rightarrow> nat list" where
  "rx_lens Eps s = [0]"
| "rx_lens (Lit c) s = (case s of [] \<Rightarrow> [] | d # _ \<Rightarrow> if d = c then [1] else [])"
| "rx_lens (Cat a b) s =
     concat (map (\<lambda>l. map (\<lambda>k. l + k) (rx_lens b (drop l s))) (rx_lens a s))"
| "rx_lens (Or a b) s = rx_lens a s @ rx_lens b s"

definition rx_regexp :: "rx \<Rightarrow> regexp" where
  "rx_regexp r i s = (case rx_lens r s of [] \<Rightarrow> None | l # _ \<Rightarrow> Some l)"

text \<open>
  Parsing, with the stack of the groups that are open. A frame holds the alternatives
  read so far and the sequence being read.
\<close>

type_synonym rx_frame = "rx option \<times> rx"

definition close_frame :: "rx_frame \<Rightarrow> rx" where
  "close_frame f = (case f of (None, sq) \<Rightarrow> sq | (Some alts, sq) \<Rightarrow> Or alts sq)"

fun parse_rx :: "rx_frame list \<Rightarrow> rx_frame \<Rightarrow> string \<Rightarrow> (string + rx) option" where
  "parse_rx stack cur [] =
     (case stack of
        [] \<Rightarrow> Some (Inr (close_frame cur))
      | _ # _ \<Rightarrow> Some (Inl ''Unterminated group''))"
| "parse_rx stack cur (c # cs) =
     (if c = CHR ''('' then parse_rx (cur # stack) (None, Eps) cs
      else if c = CHR '')'' then
        (case stack of
           [] \<Rightarrow> Some (Inl ''Unmatched )'')
         | (alts, sq) # stack' \<Rightarrow> parse_rx stack' (alts, Cat sq (close_frame cur)) cs)
      else if c = CHR ''|'' then parse_rx stack (Some (close_frame cur), Eps) cs
      else if c = backslash then
        (case cs of
           [] \<Rightarrow> Some (Inl (backslash # '' at end of pattern''))
         | e # cs' \<Rightarrow>
             if isLetter e \<or> isDigit e then None
             else parse_rx stack (fst cur, Cat (snd cur) (Lit e)) cs')
      else if c \<in> set ''^$.*+?[]{}'' then None
      else parse_rx stack (fst cur, Cat (snd cur) (Lit c)) cs)"

definition RegExp_new :: "string \<Rightarrow> regexp outcome" where
  "RegExp_new pattern =
     (case parse_rx [] (None, Eps) pattern of
        None \<Rightarrow> Unmodelled
      | Some (Inl reason) \<Rightarrow>
          Throws (Error ''SyntaxError''
            (''Invalid regular expression: /'' @ pattern @ ''/: '' @ reason))
      | Some (Inr r) \<Rightarrow> Returns (rx_regexp r))"

paragraph \<open>Replacing every occurrence of a literal token\<close>

text \<open>
  A replacement given as a string is expanded at each match: \<^verbatim>\<open>$$\<close> is a dollar,
  \<^verbatim>\<open>$&\<close> the match, \<^verbatim>\<open>$`\<close> the text before it and \<^verbatim>\<open>$'\<close> the text after it. The
  patterns of the loader have no group, so \<^verbatim>\<open>$1\<close> and the like stay as they are.
\<close>

fun expand_replacement :: "string \<Rightarrow> string \<Rightarrow> string \<Rightarrow> string \<Rightarrow> string" where
  "expand_replacement matched left right [] = []"
| "expand_replacement matched left right (c # cs) =
     (if c = CHR ''$'' then
        (case cs of
           [] \<Rightarrow> [c]
         | d # ds \<Rightarrow>
             if d = CHR ''$'' then CHR ''$'' # expand_replacement matched left right ds
             else if d = CHR ''&'' then matched @ expand_replacement matched left right ds
             else if d = CHR ''`'' then left @ expand_replacement matched left right ds
             else if d = CHR 0x27 then right @ expand_replacement matched left right ds
             else c # expand_replacement matched left right cs)
      else c # expand_replacement matched left right cs)"

text \<open>
  \<^verbatim>\<open>s.replace(/token/g, replacement)\<close> for a literal, non-empty token: matches are
  found from left to right and do not overlap. \<open>left\<close> is the part of the subject
  already passed.
\<close>

function replace_all_from :: "string \<Rightarrow> string \<Rightarrow> string \<Rightarrow> string \<Rightarrow> string" where
  "replace_all_from token replacement left [] = []"
| "replace_all_from token replacement left (c # cs) =
     (if token \<noteq> [] \<and> take (length token) (c # cs) = token
      then expand_replacement token left (drop (length token) (c # cs)) replacement
             @ replace_all_from token replacement (left @ token) (drop (length token) (c # cs))
      else c # replace_all_from token replacement (left @ [c]) cs)"
  by pat_completeness auto
termination
  by (relation "measure (\<lambda>(token, replacement, left, rest). length rest)") auto

definition replace_all :: "string \<Rightarrow> string \<Rightarrow> string \<Rightarrow> string" where
  "replace_all s token replacement = replace_all_from token replacement [] s"

subsection \<open>The loader's constants, options and templates\<close>

definition SENTRY_WRAPPER_MODULE_NAME :: string where
  "SENTRY_WRAPPER_MODULE_NAME = ''sentry-wrapper-module''"

definition WRAPPING_TARGET_MODULE_NAME :: string where
  "WRAPPING_TARGET_MODULE_NAME = ''__SENTRY_WRAPPING_TARGET_FILE__.cjs''"

text \<open>
  The three template files are read when the module is loaded; their text is not part of
  the loader and is a parameter here.
\<close>

record templates =
  apiWrapperTemplateCode :: string
  pageWrapperTemplateCode :: string
  middlewareWrapperTemplateCode :: string

text \<open>
  An exclusion rule is a string or a regular expression (\<^verbatim>\<open>Array<RegExp | string>\<close>);
  of a regular expression only its \<^verbatim>\<open>test\<close> method is used.
\<close>

datatype route_pattern = StringPattern string | RegExpPattern "string \<Rightarrow> bool"

text \<open>
  \<^verbatim>\<open>LoaderOptions\<close>. The rules may be left out, and then default to the empty list.
\<close>

record loader_options =
  pagesDir :: string
  pageExtensionRegex :: string
  excludeServerRoutes :: "route_pattern list option"

text \<open>What the loader reads of its \<^verbatim>\<open>this\<close>: the options and the path of the file.\<close>

record loader_this =
  getOptions :: loader_options
  resourcePath :: string

text \<open>
  Modelled from the spec: \<^verbatim>\<open>stringMatchesSomePattern\<close> of \<^verbatim>\<open>@sentry/utils\<close> is not among
  the source files. The spec's exclusion filter "returns true iff the route matches any
  rule, where a rule may be an exact string or a pattern". The loader always passes
  \<^verbatim>\<open>true\<close> as third argument, which is the exact comparison of strings.
\<close>

definition isMatchingPattern :: "string \<Rightarrow> route_pattern \<Rightarrow> bool" where
  "isMatchingPattern v p =
     (case p of StringPattern s \<Rightarrow> v = s | RegExpPattern test \<Rightarrow> test v)"

definition stringMatchesSomePattern :: "string \<Rightarrow> route_pattern list \<Rightarrow> bool" where
  "stringMatchesSomePattern testString patterns = list_ex (isMatchingPattern testString) patterns"

subsection \<open>The route of a file\<close>

text \<open>
  Lines 50 to 62: the path of the file inside the pages directory, then four calls of
  \<^verbatim>\<open>replace\<close>. The second one builds its regular expression from the option, and
  \<^verbatim>\<open>new RegExp\<close> throws when the pattern is malformed.
\<close>

definition extension_pattern :: "string \<Rightarrow> string" where
  "extension_pattern ext = [backslash] @ ''.('' @ ext @ '')''"

definition route_of_relative :: "regexp \<Rightarrow> string \<Rightarrow> string" where
  "route_of_relative re rel =
     String_replace
       (String_replace
          (String_replace
             (String_replace rel re_any (\<lambda>m. ''/'' @ m))
             re (\<lambda>_. []))
          re_index_at_end (\<lambda>_. []))
       re_empty (\<lambda>_. ''/'')"

definition parameterizedRoute :: "platform \<Rightarrow> string \<Rightarrow> string \<Rightarrow> string \<Rightarrow> string outcome" where
  "parameterizedRoute pf pages ext file =
     (case path_relative pf pages file of
        None \<Rightarrow> Unmodelled
      | Some rel \<Rightarrow>
          (case RegExp_new (extension_pattern ext) of
             Unmodelled \<Rightarrow> Unmodelled
           | Throws e \<Rightarrow> Throws e
           | Returns re \<Rightarrow> Returns (route_of_relative re rel)))"

subsection \<open>Choosing and filling the template\<close>

text \<open>Lines 73 to 80.\<close>

definition selectTemplate :: "templates \<Rightarrow> string \<Rightarrow> string \<Rightarrow> string \<Rightarrow> string \<Rightarrow> string" where
  "selectTemplate tpl route file middlewareJsPath middlewareTsPath =
     (if startsWith route ''/api'' then apiWrapperTemplateCode tpl
      else if file = middlewareJsPath \<or> file = middlewareTsPath
        then middlewareWrapperTemplateCode tpl
      else pageWrapperTemplateCode tpl)"

text \<open>Lines 83 and 86.\<close>

definition injectTemplate :: "string \<Rightarrow> string \<Rightarrow> string" where
  "injectTemplate route templateCode =
     replace_all
       (replace_all templateCode ''__ROUTE__'' (replace_all route [backslash] [backslash, backslash]))
       ''__SENTRY_WRAPPING_TARGET_FILE__'' WRAPPING_TARGET_MODULE_NAME"

subsection \<open>Linking with Rollup\<close>

text \<open>
  \<^verbatim>\<open>wrapUserCode\<close> hands two virtual modules to Rollup. Rollup and its CommonJS plugin
  are libraries outside the repository: the two asynchronous calls \<^verbatim>\<open>rollup\<close> and
  \<^verbatim>\<open>generate\<close> are parameters, each either rejecting or resolving (a promise that
  never settles is not modelled). What the loader decides is the options it passes,
  which are modelled as the source writes them (the \<^verbatim>\<open>onwarn\<close> handler, which does
  nothing, is left out).
\<close>

datatype 'm load_result = LoadCode string | LoadCodeMap string 'm

datatype 'm plugin =
  VirtualPlugin string "string \<Rightarrow> string option" "string \<Rightarrow> 'm load_result option"
| CommonjsPlugin bool bool

record 'm rollup_options =
  input :: string
  plugins :: "'m plugin list"
  external :: "string \<Rightarrow> bool"
  context_option :: string
  makeAbsoluteExternalsRelative :: bool

record output_options =
  format :: string
  sourcemap :: string

record 'm output_chunk =
  code :: string
  sourceMap :: 'm

definition virtual_resolveId :: "string \<Rightarrow> string option" where
  "virtual_resolveId ident =
     (if ident = SENTRY_WRAPPER_MODULE_NAME \<or> ident = WRAPPING_TARGET_MODULE_NAME
      then Some ident else None)"

definition virtual_load :: "string \<Rightarrow> string \<Rightarrow> 'm \<Rightarrow> string \<Rightarrow> 'm load_result option" where
  "virtual_load wrapperCode userModuleCode userModuleSourceMap ident =
     (if ident = SENTRY_WRAPPER_MODULE_NAME then Some (LoadCode wrapperCode)
      else if ident = WRAPPING_TARGET_MODULE_NAME
        then Some (LoadCodeMap userModuleCode userModuleSourceMap)
      else None)"

definition isExternal :: "string \<Rightarrow> bool" where
  "isExternal sourceId =
     (sourceId \<noteq> SENTRY_WRAPPER_MODULE_NAME \<and> sourceId \<noteq> WRAPPING_TARGET_MODULE_NAME)"

definition wrapUserCode_options :: "string \<Rightarrow> string \<Rightarrow> 'm \<Rightarrow> 'm rollup_options" where
  "wrapUserCode_options wrapperCode userModuleCode userModuleSourceMap =
     \<lparr> input = SENTRY_WRAPPER_MODULE_NAME,
       plugins =
         [VirtualPlugin ''virtualize-sentry-wrapper-modules'' virtual_resolveId
            (virtual_load wrapperCode userModuleCode userModuleSourceMap),
          CommonjsPlugin True True],
       external = isExternal,
       context_option = ''this'',
       makeAbsoluteExternalsRelative = False \<rparr>"

text \<open>
  The bundle's \<^verbatim>\<open>output\<close> is typed by Rollup as a non-empty array: its first chunk
  and the others.
\<close>

definition wrapUserCode ::
  "('m rollup_options \<Rightarrow> error + 'b)
    \<Rightarrow> ('b \<Rightarrow> output_options \<Rightarrow> error + 'm output_chunk \<times> 'm output_chunk list)
    \<Rightarrow> string \<Rightarrow> string \<Rightarrow> 'm \<Rightarrow> error + 'm output_chunk" where
  "wrapUserCode rollup generate wrapperCode userModuleCode userModuleSourceMap =
     (case rollup (wrapUserCode_options wrapperCode userModuleCode userModuleSourceMap) of
        Inl err \<Rightarrow> Inl err
      | Inr rollupBuild \<Rightarrow>
          (case generate rollupBuild \<lparr> format = ''esm'', sourcemap = ''hidden'' \<rparr> of
             Inl err \<Rightarrow> Inl err
           | Inr finalBundle \<Rightarrow> Inr (fst finalBundle)))"

subsection \<open>The loader\<close>

text \<open>
  What the loader does to the outside: it warns on the console and it calls the
  callback of webpack with an error or \<^verbatim>\<open>null\<close>, the code and the source map. The
  loader's result lists these calls in order, those made when the promise of
  \<^verbatim>\<open>wrapUserCode\<close> settles included; \<open>Throws\<close> is an exception that leaves
  \<^verbatim>\<open>wrappingLoader\<close>. In \<open>wrappingLoader\<close> the callback is taken not to throw;
  \<open>wrappingLoader_host\<close> below is the same function with a callback that may throw.
\<close>

datatype 'm event = Warn string | Callback "error option" string 'm

definition could_not_instrument :: "string \<Rightarrow> error \<Rightarrow> string" where
  "could_not_instrument file err =
     ''[@sentry/nextjs] Could not instrument '' @ file
       @ ''. An error occurred while auto-wrapping:'' @ [newline] @ error_toString err"

definition wrappingLoader ::
  "platform \<Rightarrow> templates
    \<Rightarrow> ('m rollup_options \<Rightarrow> error + 'b)
    \<Rightarrow> ('b \<Rightarrow> output_options \<Rightarrow> error + 'm output_chunk \<times> 'm output_chunk list)
    \<Rightarrow> loader_this \<Rightarrow> string \<Rightarrow> 'm \<Rightarrow> 'm event list outcome" where
  "wrappingLoader pf tpl rollup generate this userCode userModuleSourceMap =
     (let opts = getOptions this;
          rules = (case excludeServerRoutes opts of None \<Rightarrow> [] | Some rs \<Rightarrow> rs)
      in
      case parameterizedRoute pf (pagesDir opts) (pageExtensionRegex opts) (resourcePath this) of
        Unmodelled \<Rightarrow> Unmodelled
      | Throws e \<Rightarrow> Throws e
      | Returns route \<Rightarrow>
          if stringMatchesSomePattern route rules
          then Returns [Callback None userCode userModuleSourceMap]
          else
            (case (path_join pf (pagesDir opts) ''..'' ''middleware.js'',
                   path_join pf (pagesDir opts) ''..'' ''middleware.ts'') of
               (Some middlewareJsPath, Some middlewareTsPath) \<Rightarrow>
                 (let templateCode =
                        injectTemplate route
                          (selectTemplate tpl route (resourcePath this)
                             middlewareJsPath middlewareTsPath)
                  in
                  case wrapUserCode rollup generate templateCode userCode userModuleSourceMap of
                    Inr chunk \<Rightarrow> Returns [Callback None (code chunk) (sourceMap chunk)]
                  | Inl err \<Rightarrow>
                      Returns
                        [Warn (could_not_instrument (resourcePath this) err),
                         Callback None userCode userModuleSourceMap])
             | _ \<Rightarrow> Unmodelled))"

subsection \<open>The loader with a callback that may throw\<close>

text \<open>
  The callback is a function of the host, and a call of it may throw (webpack's own
  callback throws when it is called a second time, and passes on what the rest of the
  build throws). \<open>cb n err content srcMap\<close> says what the call number \<open>n\<close> of the
  callback does, counting from 0: \<open>None\<close> when it returns, \<open>Some e\<close> when it throws
  \<open>e\<close>.

  A throw at line 66 leaves the loader. Lines 90 to 101 are
  \<^verbatim>\<open>wrapUserCode(...).then(onResolved).catch(onRejected)\<close>: the handler of \<^verbatim>\<open>catch\<close>
  is chained behind \<^verbatim>\<open>then\<close>, so it runs when \<^verbatim>\<open>wrapUserCode\<close> rejects and also
  when the callback throws inside \<^verbatim>\<open>onResolved\<close>. What the callback throws inside
  \<^verbatim>\<open>onRejected\<close> is caught by nothing: the promise is rejected and unhandled.
\<close>

datatype ending = Settled | Thrown error | UnhandledRejection error

type_synonym 'm host_callback = "nat \<Rightarrow> error option \<Rightarrow> string \<Rightarrow> 'm \<Rightarrow> error option"

definition wrappingLoader_host ::
  "platform \<Rightarrow> templates
    \<Rightarrow> ('m rollup_options \<Rightarrow> error + 'b)
    \<Rightarrow> ('b \<Rightarrow> output_options \<Rightarrow> error + 'm output_chunk \<times> 'm output_chunk list)
    \<Rightarrow> 'm host_callback
    \<Rightarrow> loader_this \<Rightarrow> string \<Rightarrow> 'm \<Rightarrow> ('m event list \<times> ending) option" where
  "wrappingLoader_host pf tpl rollup generate cb this userCode userModuleSourceMap =
     (let opts = getOptions this;
          rules = (case excludeServerRoutes opts of None \<Rightarrow> [] | Some rs \<Rightarrow> rs)
      in
      case parameterizedRoute pf (pagesDir opts) (pageExtensionRegex opts) (resourcePath this) of
        Unmodelled \<Rightarrow> None
      | Throws e \<Rightarrow> Some ([], Thrown e)
      | Returns route \<Rightarrow>
          if stringMatchesSomePattern route rules
          then Some
            ([Callback None userCode userModuleSourceMap],
             (case cb 0 None userCode userModuleSourceMap of
                None \<Rightarrow> Settled
              | Some e \<Rightarrow> Thrown e))
          else
            (case (path_join pf (pagesDir opts) ''..'' ''middleware.js'',
                   path_join pf (pagesDir opts) ''..'' ''middleware.ts'') of
               (Some middlewareJsPath, Some middlewareTsPath) \<Rightarrow>
                 (let templateCode =
                        injectTemplate route
                          (selectTemplate tpl route (resourcePath this)
                             middlewareJsPath middlewareTsPath)
                  in
                  case wrapUserCode rollup generate templateCode userCode userModuleSourceMap of
                    Inr chunk \<Rightarrow>
                      (case cb 0 None (code chunk) (sourceMap chunk) of
                         None \<Rightarrow> Some ([Callback None (code chunk) (sourceMap chunk)], Settled)
                       | Some e \<Rightarrow>
                           Some
                             ([Callback None (code chunk) (sourceMap chunk),
                               Warn (could_not_instrument (resourcePath this) e),
                               Callback None userCode userModuleSourceMap],
                              (case cb 1 None userCode userModuleSourceMap of
                                 None \<Rightarrow> Settled
                               | Some e' \<Rightarrow> UnhandledRejection e')))
                  | Inl err \<Rightarrow>
                      Some
                        ([Warn (could_not_instrument (resourcePath this) err),
                          Callback None userCode userModuleSourceMap],
                         (case cb 0 None userCode userModuleSourceMap of
                            None \<Rightarrow> Settled
                          | Some e' \<Rightarrow> UnhandledRejection e')))
             | _ \<Rightarrow> None))"

subsection \<open>The wrapper of \<^verbatim>\<open>getServerSideProps\<close>\<close>

text \<open>
  A data-fetching function is asynchronous: applied to its context it gives a promise,
  rejected (\<open>Inl\<close>) or resolved (\<open>Inr\<close>).

  Modelled from the spec: \<^verbatim>\<open>callOriginal\<close> of \<^verbatim>\<open>./wrapperUtils\<close> is not among the
  source files. The spec describes the adapter as one that "performs auxiliary
  bookkeeping before delegating to the original and returning its result unchanged on
  the success path"; the bookkeeping has no result of its own.
\<close>

definition callOriginal :: "('c \<Rightarrow> error + 'r) \<Rightarrow> 'c \<Rightarrow> error + 'r" where
  "callOriginal origFunction ctx =
     (case origFunction ctx of Inl err \<Rightarrow> Inl err | Inr props \<Rightarrow> Inr props)"

definition withSentryGetServerSideProps :: "('c \<Rightarrow> error + 'r) \<Rightarrow> ('c \<Rightarrow> error + 'r)" where
  "withSentryGetServerSideProps origGetServerSideProps =
     (\<lambda>ctx. callOriginal origGetServerSideProps ctx)"

subsection \<open>Observations and sample inputs\<close>

text \<open>\<^verbatim>\<open>s.endsWith(p)\<close>.\<close>

definition endsWith :: "string \<Rightarrow> string \<Rightarrow> bool" where
  "endsWith s p = (length p \<le> length s \<and> drop (length s - length p) s = p)"

text \<open>The calls of the callback among the events, with their three arguments.\<close>

fun callbacks :: "'m event list \<Rightarrow> (error option \<times> string \<times> 'm) list" where
  "callbacks [] = []"
| "callbacks (Warn _ # evs) = callbacks evs"
| "callbacks (Callback err c m # evs) = (err, c, m) # callbacks evs"

fun warnings :: "'m event list \<Rightarrow> string list" where
  "warnings [] = []"
| "warnings (Warn w # evs) = w # warnings evs"
| "warnings (Callback _ _ _ # evs) = warnings evs"

text \<open>
  Sample inputs, on which the theorems below are run: three short templates, a project
  under \<^verbatim>\<open>/app\<close> with the page extensions of Next.js, a stand-in for Rollup that
  rejects, and one that resolves to the text of the wrapper module it was given.
\<close>

definition sample_templates :: templates where
  "sample_templates =
     \<lparr> apiWrapperTemplateCode = ''api(__ROUTE__) from __SENTRY_WRAPPING_TARGET_FILE__'',
       pageWrapperTemplateCode = ''page(__ROUTE__) from __SENTRY_WRAPPING_TARGET_FILE__'',
       middlewareWrapperTemplateCode = ''middleware from __SENTRY_WRAPPING_TARGET_FILE__'' \<rparr>"

definition sample_options :: loader_options where
  "sample_options =
     \<lparr> pagesDir = ''/app/pages'',
       pageExtensionRegex = ''tsx|ts|jsx|js'',
       excludeServerRoutes = Some [StringPattern ''/admin''] \<rparr>"

definition sample_this :: "string \<Rightarrow> loader_this" where
  "sample_this file = \<lparr> getOptions = sample_options, resourcePath = file \<rparr>"


definition rejecting_rollup :: "nat rollup_options \<Rightarrow> error + string" where
  "rejecting_rollup opts = Inl (Error ''RollupError'' ''Unexpected token'')"

definition echo_rollup :: "nat rollup_options \<Rightarrow> error + string" where
  "echo_rollup opts =
     (case plugins opts of
        VirtualPlugin _ _ ld # _ \<Rightarrow>
          (case ld (input opts) of
             Some (LoadCode c) \<Rightarrow> Inr c
           | _ \<Rightarrow> Inl (Error ''Error'' ''Could not load the entry module''))
      | _ \<Rightarrow> Inl (Error ''Error'' ''Could not resolve the entry module''))"

definition echo_generate ::
  "string \<Rightarrow> output_options \<Rightarrow> error + nat output_chunk \<times> nat output_chunk list" where
  "echo_generate build opts = Inr (\<lparr> code = build, sourceMap = 1 \<rparr>, [])"

text \<open>
  A callback as the loader runner of webpack gives it, in a build where the step after
  the loader throws: the first call passes that exception on, every later call is
  refused.
\<close>

definition failing_build_callback :: "nat host_callback" where
  "failing_build_callback n err content srcMap =
     (if n = 0 then Some (Error ''Error'' ''Module parse failed'')
      else Some (Error ''Error'' ''callback(): The callback was already called.''))"

text \<open>A Windows project: \<^verbatim>\<open>C:\app\pages\<close> and the file \<^verbatim>\<open>api\users.ts\<close> in it.\<close>

definition win32_pagesDir :: string where
  "win32_pagesDir = ''C:'' @ [backslash] @ ''app'' @ [backslash] @ ''pages''"

definition win32_users_file :: string where
  "win32_users_file =
     win32_pagesDir @ [backslash] @ ''api'' @ [backslash] @ ''users.ts''"



section \<open>Properties\<close>

subsection \<open>The four replacements of the route computation\<close>

declare exec_from.simps [simp del]

lemma exec_from_hit: "re i s = Some l \<Longrightarrow> exec_from re i s = Some (i, l)"
  by (subst exec_from.simps) simp

lemma exec_from_Nil_miss: "re i [] = None \<Longrightarrow> exec_from re i [] = None"
  by (subst exec_from.simps) simp

lemma exec_from_Cons_miss: "re i (c # s) = None \<Longrightarrow> exec_from re i (c # s) = exec_from re (Suc i) s"
  by (subst exec_from.simps) simp

lemma replace_any: "String_replace s re_any (\<lambda>m. ''/'' @ m) = CHR ''/'' # s"
proof -
  have "exec_from re_any 0 s = Some (0, length (takeWhile (\<lambda>c. c \<noteq> newline \<and> c \<noteq> carriage_return) s))"
    by (rule exec_from_hit) (simp add: re_any_def)
  then show ?thesis
    by (simp add: String_replace_def)
qed

lemma endsWith_Cons:
  assumes "c # s \<noteq> p"
  shows "endsWith (c # s) p = endsWith s p"
proof (cases "length p \<le> length s")
  case True
  then show ?thesis by (simp add: endsWith_def Suc_diff_le)
next
  case False
  then have "\<not> endsWith s p" by (simp add: endsWith_def)
  moreover have "\<not> endsWith (c # s) p"
  proof
    assume e: "endsWith (c # s) p"
    then have "length p = Suc (length s)" using False by (simp add: endsWith_def)
    with e have "c # s = p" by (simp add: endsWith_def)
    with assms show False by simp
  qed
  ultimately show ?thesis by simp
qed

lemma endsWith_self: "endsWith p p"
  by (simp add: endsWith_def)

lemma exec_index: "exec_from re_index_at_end i s =
   (if endsWith s ''/index'' then Some (i + (length s - 6), 6) else None)"
proof (induction s arbitrary: i)
  case Nil
  have "exec_from re_index_at_end i [] = None"
    by (rule exec_from_Nil_miss) (simp add: re_index_at_end_def)
  then show ?case by (simp add: endsWith_def)
next
  case (Cons c s)
  show ?case
  proof (cases "c # s = ''/index''")
    case True
    have "exec_from re_index_at_end i (c # s) = Some (i, 6)"
      using True by (intro exec_from_hit [of re_index_at_end i "c # s" 6]) (simp add: re_index_at_end_def)
    moreover have "endsWith (c # s) ''/index''"
      unfolding True by (rule endsWith_self)
    moreover have "length (c # s) - 6 = 0"
      unfolding True by simp
    ultimately show ?thesis by (simp del: length_Cons)
  next
    case False
    have "exec_from re_index_at_end i (c # s) = exec_from re_index_at_end (Suc i) s"
      using False by (intro exec_from_Cons_miss) (simp add: re_index_at_end_def)
    also have "\<dots> = (if endsWith s ''/index'' then Some (Suc i + (length s - 6), 6) else None)"
      by (rule Cons.IH)
    finally have step: "exec_from re_index_at_end i (c # s) =
        (if endsWith s ''/index'' then Some (Suc i + (length s - 6), 6) else None)" .
    show ?thesis
    proof (cases "endsWith s ''/index''")
      case True
      then have "6 \<le> length s" by (simp add: endsWith_def)
      then have "length (c # s) - 6 = Suc (length s - 6)" by simp
      with step True endsWith_Cons [OF False] show ?thesis by (simp del: length_Cons)
    next
      case False
      with step endsWith_Cons [OF \<open>c # s \<noteq> ''/index''\<close>] show ?thesis by simp
    qed
  qed
qed

lemma replace_index: "String_replace s re_index_at_end (\<lambda>_. []) =
   (if endsWith s ''/index'' then take (length s - 6) s else s)"
  by (simp add: String_replace_def exec_index endsWith_def)

lemma exec_empty_pos: "0 < i \<Longrightarrow> exec_from re_empty i s = None"
proof (induction s arbitrary: i)
  case Nil
  then show ?case by (intro exec_from_Nil_miss) (simp add: re_empty_def)
next
  case (Cons c s)
  have "exec_from re_empty i (c # s) = exec_from re_empty (Suc i) s"
    by (rule exec_from_Cons_miss) (simp add: re_empty_def)
  then show ?case by (simp add: Cons.IH)
qed

lemma replace_empty: "String_replace s re_empty (\<lambda>_. ''/'') = (if s = [] then ''/'' else s)"
proof (cases s)
  case Nil
  have "exec_from re_empty 0 [] = Some (0, 0)"
    by (rule exec_from_hit) (simp add: re_empty_def)
  then show ?thesis using Nil by (simp add: String_replace_def)
next
  case (Cons c t)
  have "exec_from re_empty 0 (c # t) = exec_from re_empty (Suc 0) t"
    by (rule exec_from_Cons_miss) (simp add: re_empty_def)
  then show ?thesis using Cons by (simp add: String_replace_def exec_empty_pos)
qed

lemma set_replace_delete: "set (String_replace s re (\<lambda>_. [])) \<subseteq> set s"
  by (auto simp: String_replace_def split: option.splits dest: in_set_takeD in_set_dropD)


lemma route_of_relative_eq:
  "route_of_relative re rel =
     (let stripped = String_replace (CHR ''/'' # rel) re (\<lambda>_. []);
          dropped = (if endsWith stripped ''/index'' then take (length stripped - 6) stripped else stripped)
      in if dropped = [] then ''/'' else dropped)"
  unfolding route_of_relative_def replace_any replace_index replace_empty
  by (simp add: Let_def)

lemma set_route_of_relative: "set (route_of_relative re rel) \<subseteq> insert CHR ''/'' (set rel)"
proof -
  have "set (String_replace (CHR ''/'' # rel) re (\<lambda>_. [])) \<subseteq> insert CHR ''/'' (set rel)"
    using set_replace_delete [of "CHR ''/'' # rel" re] by simp
  then show ?thesis
    by (auto simp: route_of_relative_eq Let_def dest: in_set_takeD)
qed

subsection \<open>Paths\<close>

lemma split_where_not_Nil: "split_where p s \<noteq> []"
  by (induction s) (auto split: list.splits)






lemma set_split_where: "w \<in> set (split_where p s) \<Longrightarrow> set w \<subseteq> set s"
proof (induction s arbitrary: w)
  case Nil
  then show ?case by simp
next
  case (Cons c s)
  show ?case
  proof (cases "split_where p s")
    case Nil
    with split_where_not_Nil [of p s] show ?thesis by simp
  next
    case (Cons v vs)
    then have v: "set v \<subseteq> set s" and vs: "\<And>u. u \<in> set vs \<Longrightarrow> set u \<subseteq> set s"
      using Cons.IH by simp_all
    from Cons.prems Cons have "w = [] \<or> w = c # v \<or> w = v \<or> w \<in> set vs"
      by (auto split: if_splits)
    with v vs show ?thesis by auto
  qed
qed

lemma set_normalize_segments: "set (normalize_segments acc xs) \<subseteq> set acc \<union> set xs"
proof (induction xs arbitrary: acc)
  case Nil
  then show ?case by simp
next
  case (Cons x xs)
  have d: "set (drop 1 acc) \<subseteq> set acc" by (rule set_drop_subset)
  consider "x = [] \<or> x = ''.''" | "x = ''..''" | "x \<noteq> []" "x \<noteq> ''.''" "x \<noteq> ''..''"
    by blast
  then show ?case
  proof cases
    case 1
    then have "normalize_segments acc (x # xs) = normalize_segments acc xs" by auto
    with Cons [of acc] show ?thesis by auto
  next
    case 2
    then have "normalize_segments acc (x # xs) = normalize_segments (drop 1 acc) xs" by simp
    with Cons [of "drop 1 acc"] d show ?thesis by auto
  next
    case 3
    then have "normalize_segments acc (x # xs) = normalize_segments (x # acc) xs" by simp
    with Cons [of "x # acc"] show ?thesis by auto
  qed
qed

lemma set_strip_common: "set (snd (strip_common eq xs ys)) \<subseteq> set ys"
  by (induction eq xs ys rule: strip_common.induct) auto

lemma set_relative_segments:
  "w \<in> set (relative_segments eq xs ys) \<Longrightarrow> w = ''..'' \<or> w \<in> set ys"
proof (cases "strip_common eq xs ys")
  case (Pair a b)
  assume "w \<in> set (relative_segments eq xs ys)"
  with Pair have "w = ''..'' \<or> w \<in> set b"
    by (auto simp: relative_segments_def)
  moreover have "set b \<subseteq> set ys"
    using set_strip_common [of eq xs ys] Pair by simp
  ultimately show ?thesis by auto
qed

lemma set_join_with: "set (join_with sep xs) \<subseteq> set sep \<union> (\<Union>w\<in>set xs. set w)"
  by (induction sep xs rule: join_with.induct) auto

lemma posix_relative_chars:
  assumes "posix_relative pages file = Some rel"
  shows "set rel \<subseteq> set file \<union> {CHR ''.'', CHR ''/''}"
proof
  fix c
  assume c: "c \<in> set rel"
  from assms have rel:
    "rel = join_with ''/'' (relative_segments (=) (posix_segments pages) (posix_segments file))"
    by (simp add: posix_relative_def split: if_splits)
  from c set_join_with [of "''/''" "relative_segments (=) (posix_segments pages) (posix_segments file)"]
  consider "c = CHR ''/''"
    | w where "w \<in> set (relative_segments (=) (posix_segments pages) (posix_segments file))" "c \<in> set w"
    unfolding rel by auto
  then show "c \<in> set file \<union> {CHR ''.'', CHR ''/''}"
  proof cases
    case 1
    then show ?thesis by simp
  next
    case 2
    from set_relative_segments [OF 2(1)] show ?thesis
    proof
      assume "w = ''..''"
      with 2(2) show ?thesis by simp
    next
      assume "w \<in> set (posix_segments file)"
      then have "w \<in> set (split_where (\<lambda>c. c = CHR ''/'') file)"
        using set_normalize_segments [of "[]" "split_where (\<lambda>c. c = CHR ''/'') file"]
        by (auto simp: posix_segments_def)
      from set_split_where [OF this] 2(2) show ?thesis by auto
    qed
  qed
qed

subsection \<open>What the loader asks of Rollup\<close>

text \<open>
  Every module name but the two virtual ones is declared external to Rollup, is not
  resolved by the virtual plugin, and Rollup is told not to make the paths of externals
  relative. What Rollup emits for such a reference is Rollup's own behaviour.
\<close>

lemma isExternal_iff:
  "isExternal sourceId \<longleftrightarrow>
     sourceId \<notin> {SENTRY_WRAPPER_MODULE_NAME, WRAPPING_TARGET_MODULE_NAME}"
  by (simp add: isExternal_def)

lemma virtual_resolveId_external:
  "virtual_resolveId sourceId = None \<longleftrightarrow> isExternal sourceId"
  by (simp add: virtual_resolveId_def isExternal_def)

lemma wrapUserCode_options_externals:
  "external (wrapUserCode_options wrapperCode userModuleCode userModuleSourceMap) = isExternal"
  "makeAbsoluteExternalsRelative
     (wrapUserCode_options wrapperCode userModuleCode userModuleSourceMap) = False"
  by (simp_all add: wrapUserCode_options_def)

subsection \<open>The two models of the loader\<close>

text \<open>
  With a callback that never throws, the loader with a host callback does what
  \<open>wrappingLoader\<close> says.
\<close>

lemma wrappingLoader_host_quiet:
  assumes "\<And>n err content srcMap. cb n err content srcMap = None"
  shows "wrappingLoader_host pf tpl rollup generate cb this userCode userModuleSourceMap =
     (case wrappingLoader pf tpl rollup generate this userCode userModuleSourceMap of
        Returns evs \<Rightarrow> Some (evs, Settled)
      | Throws e \<Rightarrow> Some ([], Thrown e)
      | Unmodelled \<Rightarrow> None)"
  by (simp add: wrappingLoader_host_def wrappingLoader_def assms Let_def
      split: outcome.splits option.splits sum.splits)

lemma wrappingLoader_host_error_argument:
  assumes "wrappingLoader_host pf tpl rollup generate cb this userCode userModuleSourceMap
             = Some (evs, fin)"
  shows "list_all (\<lambda>(err, content, srcMap). err = None) (callbacks evs)"
  using assms
  by (auto simp: wrappingLoader_host_def Let_def
      split: outcome.splits option.splits sum.splits if_splits)

subsection \<open>Facts about the sample inputs\<close>

lemma sample_route_blog:
  "parameterizedRoute Posix (pagesDir (getOptions (sample_this ''/app/pages/blog/index.ts'')))
     (pageExtensionRegex (getOptions (sample_this ''/app/pages/blog/index.ts'')))
     (resourcePath (sample_this ''/app/pages/blog/index.ts'')) = Returns ''/blog''"
  by code_simp

lemma sample_route_admin:
  "parameterizedRoute Posix (pagesDir (getOptions (sample_this ''/app/pages/admin.tsx'')))
     (pageExtensionRegex (getOptions (sample_this ''/app/pages/admin.tsx'')))
     (resourcePath (sample_this ''/app/pages/admin.tsx'')) = Returns ''/admin''"
  by code_simp

lemma sample_blog_not_excluded:
  "\<not> stringMatchesSomePattern ''/blog''
       (case excludeServerRoutes (getOptions (sample_this ''/app/pages/blog/index.ts'')) of
          None \<Rightarrow> [] | Some rs \<Rightarrow> rs)"
  by code_simp

lemma sample_middleware_js:
  "path_join Posix (pagesDir (getOptions (sample_this file))) ''..'' ''middleware.js''
     = Some ''/app/middleware.js''"
  unfolding sample_this_def sample_options_def by code_simp

lemma sample_middleware_ts:
  "path_join Posix (pagesDir (getOptions (sample_this file))) ''..'' ''middleware.ts''
     = Some ''/app/middleware.ts''"
  unfolding sample_this_def sample_options_def by code_simp


subsection \<open>The claims\<close>

text \<open>
  C2. When \<^verbatim>\<open>wrapUserCode\<close> rejects, the loader does not throw: it warns once, with a
  message that names the file and the error, and then calls the callback once with
  \<^verbatim>\<open>null\<close>, the original code and the original source map. (The premises say that the
  loader gets as far as \<^verbatim>\<open>wrapUserCode\<close>: the route is computed, it is not excluded,
  and the wrapper code is the template the loader chose and filled.)
\<close>

theorem wrappingLoader_link_failure_fallback:
  assumes "parameterizedRoute pf (pagesDir (getOptions this))
             (pageExtensionRegex (getOptions this)) (resourcePath this) = Returns route"
      and "\<not> stringMatchesSomePattern route
               (case excludeServerRoutes (getOptions this) of None \<Rightarrow> [] | Some rs \<Rightarrow> rs)"
      and "path_join pf (pagesDir (getOptions this)) ''..'' ''middleware.js'' = Some middlewareJsPath"
      and "path_join pf (pagesDir (getOptions this)) ''..'' ''middleware.ts'' = Some middlewareTsPath"
      and "wrapUserCode rollup generate
             (injectTemplate route
                (selectTemplate tpl route (resourcePath this) middlewareJsPath middlewareTsPath))
             userCode userModuleSourceMap = Inl err"
  shows "wrappingLoader pf tpl rollup generate this userCode userModuleSourceMap =
           Returns
             [Warn (''[@sentry/nextjs] Could not instrument '' @ resourcePath this
                      @ ''. An error occurred while auto-wrapping:'' @ [newline]
                      @ error_toString err),
              Callback None userCode userModuleSourceMap]"
  using assms by (simp add: wrappingLoader_def could_not_instrument_def)

theorem wrappingLoader_link_failure_fallback_witness:
  "wrappingLoader Posix sample_templates rejecting_rollup echo_generate
     (sample_this ''/app/pages/blog/index.ts'') ''user code'' 7 =
   Returns
     [Warn (''[@sentry/nextjs] Could not instrument /app/pages/blog/index.ts''
              @ ''. An error occurred while auto-wrapping:'' @ [newline]
              @ ''RollupError: Unexpected token''),
      Callback None ''user code'' 7]"
proof -
  have rejected:
    "wrapUserCode rejecting_rollup echo_generate
       (injectTemplate ''/blog''
          (selectTemplate sample_templates ''/blog''
             (resourcePath (sample_this ''/app/pages/blog/index.ts''))
             ''/app/middleware.js'' ''/app/middleware.ts''))
       ''user code'' 7 = Inl (Error ''RollupError'' ''Unexpected token'')"
    by (simp add: wrapUserCode_def rejecting_rollup_def)
  show ?thesis
    using wrappingLoader_link_failure_fallback
      [OF sample_route_blog sample_blog_not_excluded sample_middleware_js
          sample_middleware_ts rejected]
    by (simp add: sample_this_def error_toString_def)
qed




text \<open>
  C5, as amended. The loader never converts separators: the route has a backslash only
  where the path of the file relative to the pages directory has one. On a POSIX host a
  file path without backslashes therefore gives a route without backslashes; on a
  Windows host \<^verbatim>\<open>path.relative\<close> answers with backslashes and the route keeps them.
\<close>

theorem parameterizedRoute_backslash_from_relative:
  "(path_relative pf pages file = Some rel
      \<and> parameterizedRoute pf pages ext file = Returns route
      \<and> backslash \<notin> set rel \<longrightarrow> backslash \<notin> set route) \<and>
   (parameterizedRoute Posix pages ext file = Returns route
      \<and> backslash \<notin> set file \<longrightarrow> backslash \<notin> set route)"
proof -
  have general: "backslash \<notin> set r"
    if "path_relative p pages file = Some l" "parameterizedRoute p pages ext file = Returns r"
      "backslash \<notin> set l" for p l r
  proof -
    from that(1,2) obtain re where "r = route_of_relative re l"
      by (auto simp: parameterizedRoute_def split: outcome.splits)
    with set_route_of_relative [of re l] that(3) show ?thesis by auto
  qed
  have posix: "backslash \<notin> set r"
    if "parameterizedRoute Posix pages ext file = Returns r" "backslash \<notin> set file" for r
  proof -
    from that(1) obtain l where l: "path_relative Posix pages file = Some l"
      by (auto simp: parameterizedRoute_def split: option.splits)
    then have "posix_relative pages file = Some l"
      by (simp add: path_relative_def)
    from posix_relative_chars [OF this] that(2) have "backslash \<notin> set l" by auto
    from general [OF l that(1) this] show ?thesis .
  qed
  from general posix show ?thesis by blast
qed

theorem parameterizedRoute_backslash_from_relative_witness:
  "path_relative Posix ''/app/pages'' ''/app/pages/api/users.ts'' = Some ''api/users.ts'' \<and>
   parameterizedRoute Posix ''/app/pages'' ''tsx|ts|jsx|js'' ''/app/pages/api/users.ts''
     = Returns ''/api/users'' \<and>
   backslash \<notin> set ''api/users.ts'' \<and>
   backslash \<notin> set ''/app/pages/api/users.ts'' \<and>
   backslash \<notin> set ''/api/users''"
proof -
  have rel: "path_relative Posix ''/app/pages'' ''/app/pages/api/users.ts''
      = Some ''api/users.ts''"
    by code_simp
  have route: "parameterizedRoute Posix ''/app/pages'' ''tsx|ts|jsx|js''
      ''/app/pages/api/users.ts'' = Returns ''/api/users''"
    by code_simp
  have plain: "backslash \<notin> set ''api/users.ts''"
    "backslash \<notin> set ''/app/pages/api/users.ts''"
    by simp_all
  from parameterizedRoute_backslash_from_relative
    [of Posix "''/app/pages''" "''/app/pages/api/users.ts''" "''api/users.ts''"
        "''tsx|ts|jsx|js''" "''/api/users''"]
    rel route plain
  show ?thesis by blast
qed

text \<open>
  Counterexample to C5 as the specification states it, on a Windows host: for the file
  \<^verbatim>\<open>C:\app\pages\api\users.ts\<close> under the pages directory \<^verbatim>\<open>C:\app\pages\<close>,
  \<^verbatim>\<open>path.relative\<close> answers \<^verbatim>\<open>api\users.ts\<close> and the route is \<^verbatim>\<open>/api\users\<close>,
  with a backslash.
\<close>

theorem parameterizedRoute_win32_keeps_backslash:
  "path_relative Win32 win32_pagesDir win32_users_file
     = Some (''api'' @ [backslash] @ ''users.ts'') \<and>
   parameterizedRoute Win32 win32_pagesDir ''tsx|ts|jsx|js'' win32_users_file
     = Returns (''/api'' @ [backslash] @ ''users'') \<and>
   backslash \<in> set (''/api'' @ [backslash] @ ''users'')"
proof -
  have "path_relative Win32 win32_pagesDir win32_users_file
     = Some (''api'' @ [backslash] @ ''users.ts'')"
    by code_simp
  moreover have "parameterizedRoute Win32 win32_pagesDir ''tsx|ts|jsx|js'' win32_users_file
     = Returns (''/api'' @ [backslash] @ ''users'')"
    by code_simp
  ultimately show ?thesis by simp
qed

text \<open>
  C6. When the route of the file matches one of the exclusion rules, the loader calls
  the callback once with \<^verbatim>\<open>null\<close>, the original code and the original source map, and
  does nothing else: it returns, it does not warn, and the result is the same whatever
  the templates and whatever Rollup would do.
\<close>

theorem wrappingLoader_excluded_route:
  assumes "parameterizedRoute pf (pagesDir (getOptions this))
             (pageExtensionRegex (getOptions this)) (resourcePath this) = Returns route"
      and "excludeServerRoutes (getOptions this) = Some rules"
      and "stringMatchesSomePattern route rules"
  shows "wrappingLoader pf tpl rollup generate this userCode userModuleSourceMap =
           Returns [Callback None userCode userModuleSourceMap]"
  using assms by (simp add: wrappingLoader_def)

theorem wrappingLoader_excluded_route_witness:
  "wrappingLoader Posix sample_templates rejecting_rollup echo_generate
     (sample_this ''/app/pages/admin.tsx'') ''user code'' 7 =
   Returns [Callback None ''user code'' 7]"
proof -
  have rules: "excludeServerRoutes (getOptions (sample_this ''/app/pages/admin.tsx''))
                 = Some [StringPattern ''/admin'']"
    by (simp add: sample_this_def sample_options_def)
  have matches: "stringMatchesSomePattern ''/admin'' [StringPattern ''/admin'']"
    by (simp add: stringMatchesSomePattern_def isMatchingPattern_def)
  show ?thesis
    by (rule wrappingLoader_excluded_route [OF sample_route_admin rules matches])
qed






text \<open>
  C9. The function made by \<^verbatim>\<open>withSentryGetServerSideProps\<close> takes the same context
  and gives the same kind of promise as the original; when the original, applied to the
  context, resolves to a result, the wrapped function resolves to that same result.
\<close>

theorem withSentryGetServerSideProps_success:
  "origGetServerSideProps ctx = Inr props \<Longrightarrow>
     withSentryGetServerSideProps origGetServerSideProps ctx = Inr props"
  by (simp add: withSentryGetServerSideProps_def callOriginal_def)

theorem withSentryGetServerSideProps_success_witness:
  "withSentryGetServerSideProps (\<lambda>ctx. Inr (''props for '' @ ctx)) ''/blog''
     = (Inr ''props for /blog'' :: error + string)"
  using withSentryGetServerSideProps_success
    [of "\<lambda>ctx. Inr (''props for '' @ ctx) :: error + string" "''/blog''" "''props for /blog''"]
  by simp

text \<open>
  C10. The specification's sentence is that the callback is called exactly once whenever
  the loader returns, always with \<^verbatim>\<open>null\<close> as error. The loader breaks it when the
  callback throws on the successful path: \<^verbatim>\<open>wrapUserCode\<close> resolves, the callback is
  called with the wrapped code and throws inside \<^verbatim>\<open>then\<close>, the handler of \<^verbatim>\<open>catch\<close>
  takes this for a failure of the wrapping, warns, and calls the callback a second
  time with the original code. The loader itself has returned by then.
\<close>

theorem wrappingLoader_host_calls_back_twice:
  "wrappingLoader_host Posix sample_templates echo_rollup echo_generate failing_build_callback
     (sample_this ''/app/pages/blog/index.ts'') ''user code'' 7 =
   Some
     ([Callback None ''page(/blog) from __SENTRY_WRAPPING_TARGET_FILE__.cjs'' 1,
       Warn (''[@sentry/nextjs] Could not instrument /app/pages/blog/index.ts''
               @ ''. An error occurred while auto-wrapping:'' @ [newline]
               @ ''Error: Module parse failed''),
       Callback None ''user code'' 7],
      UnhandledRejection (Error ''Error'' ''callback(): The callback was already called.''))"
  by code_simp

end
